theory Spec2Isabelle
  imports Complex_Main "HOL-Library.Sublist" "HOL-Library.Char_ord"
    "HOL-Library.List_Lexorder" "HOL-Library.Product_Lexorder"
begin

section \<open>The attendance tracker of \<^verbatim>\<open>new.py\<close>\<close>

text \<open>
  The class \<^verbatim>\<open>AttendanceTracker\<close> is a bundle of dictionaries that every method reads and
  mutates. It is embedded as a record that each operation takes and returns. Writing the
  snapshot (\<^verbatim>\<open>save_data\<close>) does not change the object and is left out.

  Conventions of the embedding:
  \<^item> Python integers are \<open>int\<close>.
  \<^item> A Python number is an \<^verbatim>\<open>int\<close> or a float. A float is an IEEE double, given by its
    value: every operation on floats rounds its exact result to 53 significant bits, a tie
    to the even significand (\<open>round_double\<close>). The exponent is not bounded: infinities,
    \<^verbatim>\<open>OverflowError\<close> beyond about \<open>1.8e308\<close> and subnormal numbers are outside the model.
  \<^item> A calendar date is its proleptic Gregorian ordinal (\<^verbatim>\<open>date.toordinal()\<close>), an
    unbounded \<open>int\<close>; \<^verbatim>\<open>datetime.now().date()\<close> is the parameter \<open>today\<close>. The holiday set
    holds the dates whose ISO string the source stores, and the semester end is the date
    its ISO string parses to.
  \<^item> An exception is a value of \<open>py_error\<close>.
\<close>

subsection \<open>Data model\<close>

datatype py_error = ZeroDivisionError | IndexError | ValueError string

datatype py_num = PyInt int | PyFloat rat  \<comment> \<open>\<open>PyFloat x\<close>: the double whose value is \<open>x\<close>\<close>

record subject =
  name :: string
  credits :: int
  is_lab :: "bool option"  \<comment> \<open>\<open>None\<close>: the dictionary has no key \<^verbatim>\<open>'is_lab'\<close>\<close>

record att_record =
  date :: string
  status :: string

record initial =
  present :: int
  absent :: int
  yet_to_go :: int

record absence =
  absence_type :: string
  reason :: string

record tracker =
  subjects :: "string \<rightharpoonup> subject"
  timetable :: "string \<rightharpoonup> (string \<times> string) list"
  holidays :: "int set"
  attendance_records :: "string \<rightharpoonup> att_record list"
  minimum_attendance :: py_num
  absence_reasons :: "string \<rightharpoonup> absence"
  semester_end_date :: int
  initial_attendance :: "string \<rightharpoonup> initial"

record stats =
  current_present :: int
  current_absent :: int
  current_total :: int
  percentage :: rat  \<comment> \<open>the value of the number\<close>
  remaining_classes :: int
  stats_yet_to_go :: int
  classes_needed :: int
  total_possible :: int

subsection \<open>Python primitives\<close>

definition py_bind :: "py_error + 'a \<Rightarrow> ('a \<Rightarrow> py_error + 'b) \<Rightarrow> py_error + 'b" where
  "py_bind m f = (case m of Inl e \<Rightarrow> Inl e | Inr x \<Rightarrow> f x)"

function ilog2 :: "int \<Rightarrow> int" where
  \<comment> \<open>the position of the highest bit of a positive number\<close>
  "ilog2 n = (if n < 2 then 0 else 1 + ilog2 (n div 2))"
  by pat_completeness auto
termination
  by (relation "measure nat") auto

declare ilog2.simps [simp del]

definition float_exponent :: "rat \<Rightarrow> int" where
  \<comment> \<open>for \<open>0 < x\<close>, the \<open>e\<close> with \<open>2 ^ e \<le> x < 2 ^ (e + 1)\<close>\<close>
  "float_exponent x =
     (if 1 \<le> x then ilog2 \<lfloor>x\<rfloor>
      else let y = 1 / x; k = ilog2 \<lfloor>y\<rfloor>
           in if y = 2 ^ nat k then - k else - k - 1)"

definition scale2 :: "int \<Rightarrow> rat \<Rightarrow> rat" where
  \<comment> \<open>\<open>x\<close> times the \<open>k\<close>-th power of 2\<close>
  "scale2 k x = (if 0 \<le> k then x * 2 ^ nat k else x / 2 ^ nat (- k))"

definition round_half_even :: "rat \<Rightarrow> int" where
  \<comment> \<open>the nearest integer, a tie to the even neighbour\<close>
  "round_half_even m =
     (let f = \<lfloor>m\<rfloor>; d = m - of_int f
      in if d < 1 / 2 then f else if 1 / 2 < d then f + 1
         else if even f then f else f + 1)"

definition round_double :: "rat \<Rightarrow> rat" where
  \<comment> \<open>the double nearest to \<open>x\<close>: 53 significant bits, a tie to the even significand\<close>
  "round_double x =
     (if x = 0 then 0
      else let e = float_exponent \<bar>x\<bar>;
               r = round_half_even (scale2 (52 - e) \<bar>x\<bar>)
           in sgn x * scale2 (e - 52) (of_int r))"

definition to_float :: "py_num \<Rightarrow> rat" where
  \<comment> \<open>the float operand of a mixed operation: an \<^verbatim>\<open>int\<close> is converted first\<close>
  "to_float a = (case a of PyInt n \<Rightarrow> round_double (of_int n) | PyFloat x \<Rightarrow> x)"

definition num_value :: "py_num \<Rightarrow> rat" where
  "num_value a = (case a of PyInt n \<Rightarrow> of_int n | PyFloat x \<Rightarrow> x)"

definition py_mul :: "py_num \<Rightarrow> py_num \<Rightarrow> py_num" where
  \<comment> \<open>the operator \<^verbatim>\<open>*\<close>\<close>
  "py_mul a b =
     (case (a, b) of
        (PyInt m, PyInt n) \<Rightarrow> PyInt (m * n)
      | _ \<Rightarrow> PyFloat (round_double (to_float a * to_float b)))"

definition py_sub :: "py_num \<Rightarrow> py_num \<Rightarrow> py_num" where
  \<comment> \<open>the operator \<^verbatim>\<open>-\<close>\<close>
  "py_sub a b =
     (case (a, b) of
        (PyInt m, PyInt n) \<Rightarrow> PyInt (m - n)
      | _ \<Rightarrow> PyFloat (round_double (to_float a - to_float b)))"

definition truediv_value :: "py_num \<Rightarrow> py_num \<Rightarrow> rat" where
  \<comment> \<open>the quotient of two \<^verbatim>\<open>int\<close>s is rounded once, from the exact quotient\<close>
  "truediv_value a b =
     (case (a, b) of
        (PyInt m, PyInt n) \<Rightarrow> round_double (of_int m / of_int n)
      | _ \<Rightarrow> round_double (to_float a / to_float b))"

definition py_truediv :: "py_num \<Rightarrow> py_num \<Rightarrow> py_error + py_num" where
  \<comment> \<open>the operator \<^verbatim>\<open>/\<close>\<close>
  "py_truediv a b =
     (if num_value b = 0 then Inl ZeroDivisionError else Inr (PyFloat (truediv_value a b)))"

definition math_ceil :: "py_num \<Rightarrow> int" where
  \<comment> \<open>\<^verbatim>\<open>math.ceil(x)\<close>\<close>
  "math_ceil a = (case a of PyInt n \<Rightarrow> n | PyFloat x \<Rightarrow> \<lceil>x\<rceil>)"

definition py_int_of_float :: "rat \<Rightarrow> int" where
  \<comment> \<open>\<^verbatim>\<open>int(x)\<close> on a float truncates towards zero\<close>
  "py_int_of_float x = (if 0 \<le> x then \<lfloor>x\<rfloor> else \<lceil>x\<rceil>)"

definition py_trunc :: "py_num \<Rightarrow> int" where
  \<comment> \<open>\<^verbatim>\<open>int(x)\<close>\<close>
  "py_trunc a = (case a of PyInt n \<Rightarrow> n | PyFloat x \<Rightarrow> py_int_of_float x)"

definition py_round2 :: "py_num \<Rightarrow> py_num" where
  \<comment> \<open>\<^verbatim>\<open>round(x, 2)\<close>: an \<^verbatim>\<open>int\<close> is returned as it is; a float is rounded to two decimals
      from its exact value, a tie to the even neighbour, and the decimal is converted back\<close>
  "py_round2 a =
     (case a of
        PyInt n \<Rightarrow> PyInt n
      | PyFloat x \<Rightarrow> PyFloat (round_double (of_int (round_half_even (x * 100)) / 100)))"

definition weekday :: "int \<Rightarrow> nat" where
  \<comment> \<open>\<^verbatim>\<open>date.weekday()\<close>: 0 is Monday\<close>
  "weekday d = nat ((d + 6) mod 7)"

definition day_name :: "int \<Rightarrow> string" where
  \<comment> \<open>\<^verbatim>\<open>strftime('%A')\<close>\<close>
  "day_name d =
     [''Monday'', ''Tuesday'', ''Wednesday'', ''Thursday'', ''Friday'', ''Saturday'',
      ''Sunday''] ! weekday d"

definition py_isspace :: "char \<Rightarrow> bool" where
  \<comment> \<open>the ASCII characters that \<^verbatim>\<open>int()\<close> strips\<close>
  "py_isspace c \<longleftrightarrow>
     c \<in> set [CHR '' '', CHR 0x09, CHR 0x0A, CHR 0x0B, CHR 0x0C, CHR 0x0D,
               CHR 0x1C, CHR 0x1D, CHR 0x1E, CHR 0x1F]"

definition py_strip :: "string \<Rightarrow> string" where
  "py_strip s = rev (dropWhile py_isspace (rev (dropWhile py_isspace s)))"

definition is_digit :: "char \<Rightarrow> bool" where
  "is_digit c \<longleftrightarrow> c \<in> set ''0123456789''"

definition digit_val :: "char \<Rightarrow> int" where
  "digit_val c = int (length (takeWhile (\<lambda>d. d \<noteq> c) ''0123456789''))"

fun int_digits :: "string \<Rightarrow> bool \<Rightarrow> int \<Rightarrow> int option" where
  \<comment> \<open>decimal digits, a single underscore allowed between two digits; the flag says that
      the previous character was a digit\<close>
  "int_digits [] prev_digit acc = (if prev_digit then Some acc else None)"
| "int_digits (c # cs) prev_digit acc =
     (if is_digit c then int_digits cs True (10 * acc + digit_val c)
      else if c = CHR ''_'' \<and> prev_digit then int_digits cs False acc
      else None)"

definition py_int :: "string \<Rightarrow> py_error + int" where
  \<comment> \<open>\<^verbatim>\<open>int(s)\<close> on an ASCII string: surrounding whitespace, an optional sign, digits\<close>
  "py_int s =
     (let t = py_strip s;
          (neg, ds) = (case t of
                         [] \<Rightarrow> (False, [])
                       | c # cs \<Rightarrow> if c = CHR ''-'' then (True, cs)
                                  else if c = CHR ''+'' then (False, cs)
                                  else (False, t))
      in case int_digits ds False 0 of
           None \<Rightarrow> Inl (ValueError ''invalid literal for int() with base 10'')
         | Some v \<Rightarrow> Inr (if neg then - v else v))"

fun str_nat :: "nat \<Rightarrow> string" where
  "str_nat n =
     (if n < 10 then [''0123456789'' ! n]
      else str_nat (n div 10) @ [''0123456789'' ! (n mod 10)])"

declare str_nat.simps [simp del]

definition py_str :: "int \<Rightarrow> string" where
  \<comment> \<open>an integer inside an f-string\<close>
  "py_str i = (if i < 0 then CHR ''-'' # str_nat (nat (- i)) else str_nat (nat i))"

fun split_loop :: "string \<Rightarrow> string \<Rightarrow> string \<Rightarrow> string list" where
  \<comment> \<open>the pieces of the text to the right, \<open>cur\<close> being the piece read so far\<close>
  "split_loop sep cur [] = [cur]"
| "split_loop sep cur (c # cs) =
     (if prefix sep (c # cs) then cur # split_loop sep [] (drop (length sep - 1) cs)
      else split_loop sep (cur @ [c]) cs)"

definition py_split :: "string \<Rightarrow> string \<Rightarrow> string list" where
  \<comment> \<open>\<^verbatim>\<open>s.split(sep)\<close> for a non-empty separator (the source passes literals)\<close>
  "py_split sep s = split_loop sep [] s"

fun py_contains :: "string \<Rightarrow> string \<Rightarrow> bool" where
  \<comment> \<open>\<^verbatim>\<open>sub in s\<close>\<close>
  "py_contains sub [] \<longleftrightarrow> sub = []"
| "py_contains sub (c # cs) \<longleftrightarrow> prefix sub (c # cs) \<or> py_contains sub cs"

subsection \<open>Remaining classes until the semester end\<close>

function remaining_loop ::
  "(string \<rightharpoonup> (string \<times> string) list) \<Rightarrow> int set \<Rightarrow> string \<Rightarrow> int \<Rightarrow> int \<Rightarrow> int \<Rightarrow> int"
where
  "remaining_loop tt hol subject_code end_date current_date remaining =
     (if current_date \<le> end_date then
        remaining_loop tt hol subject_code end_date (current_date + 1)
          (case tt (day_name current_date) of
             None \<Rightarrow> remaining
           | Some classes \<Rightarrow>
               if current_date \<notin> hol
               then remaining
                      + int (length (filter (\<lambda>(_, subj). subj = subject_code) classes))
               else remaining)
      else remaining)"
  by pat_completeness auto
termination
  by (relation "measure (\<lambda>(tt, hol, s, e, c, r). nat (e - c + 1))") auto

declare remaining_loop.simps [simp del]

definition get_remaining_classes :: "tracker \<Rightarrow> string \<Rightarrow> int \<Rightarrow> int" where
  "get_remaining_classes st subject_code today =
     remaining_loop (timetable st) (holidays st) subject_code (semester_end_date st) today 0"

subsection \<open>Statistics\<close>

definition records_getitem :: "tracker \<Rightarrow> string \<Rightarrow> att_record list \<times> tracker" where
  \<comment> \<open>\<^verbatim>\<open>self.attendance_records[subject_code]\<close> on a \<^verbatim>\<open>defaultdict(list)\<close>: a missing key is
      created with an empty list\<close>
  "records_getitem st subject_code =
     (case attendance_records st subject_code of
        Some rs \<Rightarrow> (rs, st)
      | None \<Rightarrow> ([], st\<lparr>attendance_records := (attendance_records st)(subject_code \<mapsto> [])\<rparr>))"

definition initial_get :: "tracker \<Rightarrow> string \<Rightarrow> initial" where
  \<comment> \<open>\<^verbatim>\<open>self.initial_attendance.get(subject_code, {'present': 0, 'absent': 0, 'yet_to_go': 0})\<close>\<close>
  "initial_get st subject_code =
     (case initial_attendance st subject_code of
        Some i \<Rightarrow> i
      | None \<Rightarrow> \<lparr>present = 0, absent = 0, yet_to_go = 0\<rparr>)"

definition count_status :: "string \<Rightarrow> att_record list \<Rightarrow> int" where
  \<comment> \<open>\<^verbatim>\<open>len([r for r in records if r['status'] == s])\<close>\<close>
  "count_status s records = int (length (filter (\<lambda>r. status r = s) records))"

definition get_attendance_stats ::
  "tracker \<Rightarrow> string \<Rightarrow> int \<Rightarrow> py_error + (stats \<times> tracker)"
where
  "get_attendance_stats st subject_code today =
     (let (records, st') = records_getitem st subject_code;
          init = initial_get st' subject_code;
          cur_present = count_status ''present'' records + present init;
          cur_absent = count_status ''absent'' records + absent init;
          remaining = get_remaining_classes st' subject_code today;
          ytg = yet_to_go init;
          tot_possible = cur_present + cur_absent + ytg;
          cur_total = cur_present + cur_absent
      in
      py_bind
        (if cur_total > 0
         then py_bind (py_truediv (PyInt cur_present) (PyInt cur_total))
                (\<lambda>q. Inr (py_mul q (PyInt 100)))
         else Inr (PyInt 0))
        (\<lambda>cur_percentage.
      py_bind
        (if tot_possible > 0
         then py_bind
                (py_truediv (py_mul (minimum_attendance st') (PyInt tot_possible)) (PyInt 100))
                (\<lambda>min_required_present.
                   let needed = math_ceil (py_sub min_required_present (PyInt cur_present));
                       available_future = remaining + ytg
                   in Inr (min (max 0 needed) available_future))
         else Inr 0)
        (\<lambda>needed.
      Inr (\<lparr>current_present = cur_present,
            current_absent = cur_absent,
            current_total = cur_total,
            percentage = num_value (py_round2 cur_percentage),
            remaining_classes = remaining,
            stats_yet_to_go = ytg,
            classes_needed = needed,
            total_possible = tot_possible\<rparr>, st'))))"

definition calculate_bunkable_classes ::
  "tracker \<Rightarrow> string \<Rightarrow> int \<Rightarrow> py_error + (int \<times> tracker)"
where
  "calculate_bunkable_classes st subject_code today =
     py_bind (get_attendance_stats st subject_code today)
       (\<lambda>(s, st').
          if current_total s = 0 then Inr (0, st')
          else
            py_bind (py_truediv (minimum_attendance st') (PyInt 100))
              (\<lambda>q. let min_required_present = py_mul q (PyInt (total_possible s));
                       max_bunkable = py_sub (PyInt (total_possible s)) min_required_present;
                       already_absent = current_absent s;
                       can_bunk = max 0 (py_trunc (py_sub max_bunkable (PyInt already_absent)))
                   in Inr (can_bunk, st')))"

definition update_min_attendance :: "tracker \<Rightarrow> rat \<Rightarrow> tracker" where
  \<comment> \<open>the handler of the threshold field, for a text that is the decimal \<open>typed\<close>:
      \<^verbatim>\<open>float(text)\<close> is the nearest double, stored when it lies in the range\<close>
  "update_min_attendance st typed =
     (let min_att = round_double typed
      in if 0 \<le> min_att \<and> min_att \<le> 100
         then st\<lparr>minimum_attendance := PyFloat min_att\<rparr>
         else st)"

subsection \<open>Subjects\<close>

definition add_subject :: "tracker \<Rightarrow> string \<Rightarrow> string \<Rightarrow> int \<Rightarrow> bool \<Rightarrow> tracker" where
  "add_subject st subject_code subject_name creds lab =
     st\<lparr>subjects := (subjects st)
          (subject_code \<mapsto> \<lparr>name = subject_name, credits = creds, is_lab = Some lab\<rparr>)\<rparr>"

definition set_initial_attendance :: "tracker \<Rightarrow> string \<Rightarrow> int \<Rightarrow> int \<Rightarrow> int \<Rightarrow> tracker" where
  "set_initial_attendance st subject_code p a y =
     st\<lparr>initial_attendance := (initial_attendance st)
          (subject_code \<mapsto> \<lparr>present = p, absent = a, yet_to_go = y\<rparr>)\<rparr>"

definition delete_subject :: "tracker \<Rightarrow> string \<Rightarrow> tracker" where
  "delete_subject st subject_code =
     (if subject_code \<in> dom (subjects st) then
        st\<lparr>subjects := (subjects st)(subject_code := None),
           attendance_records :=
             (if subject_code \<in> dom (attendance_records st)
              then (attendance_records st)(subject_code := None)
              else attendance_records st),
           initial_attendance :=
             (if subject_code \<in> dom (initial_attendance st)
              then (initial_attendance st)(subject_code := None)
              else initial_attendance st),
           timetable :=
             (\<lambda>day. map_option (filter (\<lambda>(time, subj). subj \<noteq> subject_code))
                      (timetable st day))\<rparr>
      else st)"

subsection \<open>Timetable\<close>

definition subject_is_lab :: "tracker \<Rightarrow> string \<Rightarrow> bool" where
  \<comment> \<open>\<^verbatim>\<open>self.subjects.get(subject_code, {}).get('is_lab', False)\<close>\<close>
  "subject_is_lab st subject_code =
     (case subjects st subject_code of
        None \<Rightarrow> False
      | Some sb \<Rightarrow> (case is_lab sb of None \<Rightarrow> False | Some b \<Rightarrow> b))"

definition period_number :: "string \<Rightarrow> py_error + int" where
  \<comment> \<open>\<^verbatim>\<open>int(period_slot.split(" (")[0].split(" ")[1])\<close>\<close>
  "period_number period_slot =
     (case py_split '' ('' period_slot of
        [] \<Rightarrow> Inl IndexError
      | period_info # _ \<Rightarrow>
          (case py_split '' '' period_info of
             _ # num # _ \<Rightarrow> py_int num
           | _ \<Rightarrow> Inl IndexError))"

definition get_period_time :: "int \<Rightarrow> string" where
  "get_period_time period_num =
     (if period_num = 1 then ''8:30-9:25''
      else if period_num = 2 then ''9:25-10:20''
      else if period_num = 3 then ''10:40-11:35''
      else if period_num = 4 then ''11:35-12:30''
      else if period_num = 5 then ''1:25-2:20''
      else if period_num = 6 then ''2:20-3:15''
      else if period_num = 7 then ''3:15-4:10''
      else [])"

definition starts_with_period :: "int \<Rightarrow> string \<Rightarrow> bool" where
  \<comment> \<open>\<^verbatim>\<open>time.startswith(f"Period {n}")\<close>\<close>
  "starts_with_period n time \<longleftrightarrow> prefix (''Period '' @ py_str n) time"

definition day_entries :: "tracker \<Rightarrow> string \<Rightarrow> (string \<times> string) list" where
  \<comment> \<open>\<^verbatim>\<open>self.timetable[day]\<close>, read where the key is known to exist\<close>
  "day_entries st day = (case timetable st day of None \<Rightarrow> [] | Some entries \<Rightarrow> entries)"

definition lab_conflict :: py_error where
  "lab_conflict = ValueError ''Cannot add lab subject here - requires two consecutive periods''"

definition add_timetable_entry ::
  "tracker \<Rightarrow> string \<Rightarrow> string \<Rightarrow> string \<Rightarrow> py_error option \<times> tracker"
where
  \<comment> \<open>the first component is the exception raised, if any; the second is the object as the
      call leaves it\<close>
  "add_timetable_entry st day period_slot subject_code =
     (let st1 = (if day \<notin> dom (timetable st)
                 then st\<lparr>timetable := (timetable st)(day \<mapsto> [])\<rparr> else st);
          lab = subject_is_lab st1 subject_code
      in case period_number period_slot of
           Inl e \<Rightarrow> (Some e, st1)
         | Inr period_num \<Rightarrow>
             if lab \<and> (period_num \<ge> 7
                  \<or> list_ex (\<lambda>(time, _). starts_with_period (period_num + 1) time)
                       (day_entries st1 day))
             then (Some lab_conflict, st1)
             else
               let kept = filter (\<lambda>(t, s). \<not> starts_with_period period_num t)
                            (day_entries st1 day);
                   kept' = (if lab
                            then filter (\<lambda>(t, s). \<not> starts_with_period (period_num + 1) t) kept
                            else kept);
                   next_slot = ''Period '' @ py_str (period_num + 1) @ '' (''
                                 @ get_period_time (period_num + 1) @ '')'';
                   added = kept' @ [(period_slot, subject_code)]
                             @ (if lab then [(next_slot, subject_code)] else [])
               in (None, st1\<lparr>timetable := (timetable st1)(day \<mapsto> sort added)\<rparr>))"

definition time_map :: "int \<Rightarrow> string option" where
  "time_map period_num =
     (if period_num = 1 then Some ''08:30''
      else if period_num = 2 then Some ''09:25''
      else if period_num = 3 then Some ''10:40''
      else if period_num = 4 then Some ''11:35''
      else if period_num = 5 then Some ''01:25''
      else if period_num = 6 then Some ''02:20''
      else if period_num = 7 then Some ''03:15''
      else None)"

fun delete_loop ::
  "string option \<Rightarrow> string \<Rightarrow> string \<Rightarrow> (string \<times> string) list \<Rightarrow> bool
     \<Rightarrow> (string \<times> string) list"
where
  \<comment> \<open>the \<^verbatim>\<open>for\<close> loop over the entries that are left, with the flag \<^verbatim>\<open>skip_next\<close>;
      the result is what the loop appends to \<^verbatim>\<open>new_entries\<close>\<close>
  "delete_loop time_to_find period_slot subject_code [] skip_next = []"
| "delete_loop time_to_find period_slot subject_code ((time, subj) # rest) skip_next =
     (if skip_next then delete_loop time_to_find period_slot subject_code rest False
      else if (Some time = time_to_find \<or> time = period_slot) \<and> subj = subject_code then
        delete_loop time_to_find period_slot subject_code rest
          (case rest of [] \<Rightarrow> False | (_, subj') # _ \<Rightarrow> subj' = subject_code)
      else (time, subj) # delete_loop time_to_find period_slot subject_code rest False)"

definition delete_timetable_entry ::
  "tracker \<Rightarrow> string \<Rightarrow> string \<Rightarrow> string \<Rightarrow> py_error option \<times> tracker"
where
  "delete_timetable_entry st day period_slot subject_code =
     (case timetable st day of
        None \<Rightarrow> (None, st)
      | Some entries \<Rightarrow>
          (case (if py_contains '' ('' period_slot
                 then (case period_number period_slot of
                         Inl e \<Rightarrow> Inl e
                       | Inr period_num \<Rightarrow> Inr (time_map period_num))
                 else Inr (Some period_slot)) of
             Inl e \<Rightarrow> (Some e, st)
           | Inr time_to_find \<Rightarrow>
               let new_entries = delete_loop time_to_find period_slot subject_code entries False
               in (None,
                   if new_entries \<noteq> []
                   then st\<lparr>timetable := (timetable st)(day \<mapsto> new_entries)\<rparr>
                   else st\<lparr>timetable := (timetable st)(day := None)\<rparr>)))"

subsection \<open>Attendance ledger\<close>

definition mark_attendance :: "tracker \<Rightarrow> string \<Rightarrow> string \<Rightarrow> string \<Rightarrow> tracker" where
  \<comment> \<open>the method has no \<^verbatim>\<open>raise\<close> and its only lookup is on the \<^verbatim>\<open>defaultdict\<close>\<close>
  "mark_attendance st subject_code date_str new_status =
     (let (records, st1) = records_getitem st subject_code;
          existing_records = filter (\<lambda>r. date r = date_str) records
      in if existing_records \<noteq> [] then
           st1\<lparr>attendance_records := (attendance_records st1)
                 (subject_code \<mapsto>
                    map (\<lambda>r. if date r = date_str then r\<lparr>status := new_status\<rparr> else r)
                      records)\<rparr>
         else
           st1\<lparr>attendance_records := (attendance_records st1)
                 (subject_code \<mapsto> records @ [\<lparr>date = date_str, status = new_status\<rparr>])\<rparr>)"

subsection \<open>The quantities of the specification\<close>

definition ledger :: "tracker \<Rightarrow> string \<Rightarrow> att_record list" where
  "ledger st subject_code =
     (case attendance_records st subject_code of None \<Rightarrow> [] | Some rs \<Rightarrow> rs)"

definition present_of :: "tracker \<Rightarrow> string \<Rightarrow> int" where
  "present_of st s = count_status ''present'' (ledger st s) + present (initial_get st s)"

definition absent_of :: "tracker \<Rightarrow> string \<Rightarrow> int" where
  "absent_of st s = count_status ''absent'' (ledger st s) + absent (initial_get st s)"

definition held_of :: "tracker \<Rightarrow> string \<Rightarrow> int" where
  "held_of st s = present_of st s + absent_of st s"

definition total_possible_of :: "tracker \<Rightarrow> string \<Rightarrow> int" where
  "total_possible_of st s = present_of st s + absent_of st s + yet_to_go (initial_get st s)"

definition clamp :: "int \<Rightarrow> int \<Rightarrow> int \<Rightarrow> int" where
  "clamp x lo hi = max lo (min x hi)"

subsection \<open>The timetable invariant of the specification\<close>

definition lab_pair_ok :: "(string \<times> string) list \<Rightarrow> string \<Rightarrow> bool" where
  \<comment> \<open>the subject occupies exactly two slots of the day, with consecutive period numbers\<close>
  "lab_pair_ok entries subject_code =
     (case map (\<lambda>(t, s). period_number t) (filter (\<lambda>(t, s). s = subject_code) entries) of
        [Inr a, Inr b] \<Rightarrow> b = a + 1 \<or> a = b + 1
      | _ \<Rightarrow> False)"

definition day_invariant :: "tracker \<Rightarrow> string \<Rightarrow> bool" where
  \<comment> \<open>no slot of the day is occupied twice, and every lab subject of the day has its pair\<close>
  "day_invariant st day =
     (let entries = day_entries st day
      in distinct (map fst entries)
         \<and> list_all (\<lambda>(t, s). if subject_is_lab st s then lab_pair_ok entries s else True)
               entries)"

subsection \<open>Example states\<close>

definition blank_tracker :: tracker where
  \<comment> \<open>the fields as \<^verbatim>\<open>__init__\<close> sets them; 739598 is 2025-12-13\<close>
  "blank_tracker =
     \<lparr>subjects = Map.empty, timetable = Map.empty, holidays = {},
      attendance_records = Map.empty, minimum_attendance = PyInt 75,
      absence_reasons = Map.empty, semester_end_date = 739598,
      initial_attendance = Map.empty\<rparr>"

definition cs101_tracker :: tracker where
  \<comment> \<open>one class on Mondays; Monday 2025-12-08 and the last day are holidays\<close>
  "cs101_tracker =
     \<lparr>subjects = [''CS101'' \<mapsto> \<lparr>name = ''Programming'', credits = 4, is_lab = Some False\<rparr>],
      timetable = [''Monday'' \<mapsto> [(''Period 1 (8:30-9:25)'', ''CS101'')]],
      holidays = {739593, 739598},
      attendance_records = Map.empty,
      minimum_attendance = PyInt 75,
      absence_reasons = Map.empty,
      semester_end_date = 739598,
      initial_attendance = [''CS101'' \<mapsto> \<lparr>present = 30, absent = 5, yet_to_go = 10\<rparr>]\<rparr>"

definition lab01_tracker :: tracker where
  "lab01_tracker =
     cs101_tracker\<lparr>subjects := (subjects cs101_tracker)
        (''LAB01'' \<mapsto> \<lparr>name = ''Laboratory'', credits = 2, is_lab = Some True\<rparr>)\<rparr>"

definition lab_tracker :: tracker where
  \<comment> \<open>a lab subject and a lecture, nothing scheduled\<close>
  "lab_tracker =
     add_subject (add_subject blank_tracker ''PHY'' ''Physics Lab'' 2 True)
       ''MAT'' ''Maths'' 4 False"


definition needed_tracker :: tracker where
  \<comment> \<open>threshold 64.4 typed in; one class attended, one missed, 248 yet to go\<close>
  "needed_tracker =
     update_min_attendance
       (mark_attendance
          (mark_attendance (set_initial_attendance cs101_tracker ''CS101'' 0 0 248)
             ''CS101'' ''2025-12-01'' ''present'')
          ''CS101'' ''2025-12-02'' ''absent'')
       (644 / 10)"

definition tiny_tracker :: tracker where
  \<comment> \<open>threshold 0.8 typed in; one class missed, 124 yet to go\<close>
  "tiny_tracker =
     update_min_attendance
       (mark_attendance (set_initial_attendance cs101_tracker ''CS101'' 0 0 124)
          ''CS101'' ''2025-12-02'' ''absent'')
       (8 / 10)"

definition bunk_tracker :: tracker where
  \<comment> \<open>threshold 55 typed in; 90 classes attended and 10 missed, one of each in the ledger\<close>
  "bunk_tracker =
     update_min_attendance
       (mark_attendance
          (mark_attendance (set_initial_attendance cs101_tracker ''CS101'' 89 9 0)
             ''CS101'' ''2025-12-01'' ''present'')
          ''CS101'' ''2025-12-02'' ''absent'')
       55"

definition marked_tracker :: tracker where
  "marked_tracker = mark_attendance cs101_tracker ''CS101'' ''2025-12-01'' ''present''"

definition phy_tracker :: tracker where
  \<comment> \<open>the lab scheduled on Monday, periods 1 and 2\<close>
  "phy_tracker =
     lab_tracker\<lparr>timetable :=
       [''Monday'' \<mapsto> [(''Period 1 (8:30-9:25)'', ''PHY''), (''Period 2 (9:25-10:20)'', ''PHY'')]]\<rparr>"

definition mat_tracker :: tracker where
  \<comment> \<open>the lecture scheduled on Monday, periods 1 and 2\<close>
  "mat_tracker =
     lab_tracker\<lparr>timetable :=
       [''Monday'' \<mapsto> [(''Period 1 (8:30-9:25)'', ''MAT''), (''Period 2 (9:25-10:20)'', ''MAT'')]]\<rparr>"

section \<open>Statistics\<close>

subsection \<open>What the two functions return\<close>



lemma records_getitem_fst: "fst (records_getitem st s) = ledger st s"
  by (simp add: records_getitem_def ledger_def split: option.split)

lemma records_getitem_snd:
  "initial_get (snd (records_getitem st s)) s' = initial_get st s'"
  "get_remaining_classes (snd (records_getitem st s)) s' today = get_remaining_classes st s' today"
  "minimum_attendance (snd (records_getitem st s)) = minimum_attendance st"
  by (simp_all add: records_getitem_def initial_get_def get_remaining_classes_def
      split: option.split)

lemma get_attendance_stats_eq:
  "get_attendance_stats st s today =
     Inr (\<lparr>current_present = present_of st s,
           current_absent = absent_of st s,
           current_total = held_of st s,
           percentage = (if held_of st s > 0
              then num_value (py_round2 (py_mul
                     (PyFloat (truediv_value (PyInt (present_of st s)) (PyInt (held_of st s))))
                     (PyInt 100)))
              else 0),
           remaining_classes = get_remaining_classes st s today,
           stats_yet_to_go = yet_to_go (initial_get st s),
           classes_needed = (if total_possible_of st s > 0
              then min (max 0 (math_ceil (py_sub
                          (PyFloat (truediv_value
                             (py_mul (minimum_attendance st) (PyInt (total_possible_of st s)))
                             (PyInt 100)))
                          (PyInt (present_of st s)))))
                       (get_remaining_classes st s today + yet_to_go (initial_get st s))
              else 0),
           total_possible = total_possible_of st s\<rparr>, snd (records_getitem st s))"
proof -
  obtain rs st' where g: "records_getitem st s = (rs, st')" by (cases "records_getitem st s")
  have rs: "rs = ledger st s" using records_getitem_fst[of st s] g by simp
  have st': "st' = snd (records_getitem st s)" using g by simp
  show ?thesis
    unfolding get_attendance_stats_def g
    by (simp add: Let_def py_bind_def py_truediv_def num_value_def py_round2_def rs st'
        records_getitem_snd present_of_def absent_of_def held_of_def total_possible_of_def)
qed

lemma calculate_bunkable_classes_eq:
  "calculate_bunkable_classes st s today =
     Inr (if held_of st s = 0 then 0
          else max 0 (py_trunc (py_sub
                 (py_sub (PyInt (total_possible_of st s))
                    (py_mul (PyFloat (truediv_value (minimum_attendance st) (PyInt 100)))
                       (PyInt (total_possible_of st s))))
                 (PyInt (absent_of st s)))),
          snd (records_getitem st s))"
  by (simp add: calculate_bunkable_classes_def get_attendance_stats_eq py_bind_def
      py_truediv_def num_value_def records_getitem_snd Let_def)

lemma remaining_cs101: "get_remaining_classes cs101_tracker ''CS101'' 739586 = 1"
  by (simp add: get_remaining_classes_def cs101_tracker_def remaining_loop.simps
      day_name_def weekday_def)

lemmas stats_eval =
  cs101_tracker_def lab01_tracker_def initial_get_def ledger_def total_possible_of_def
  held_of_def present_of_def absent_of_def count_status_def

subsection \<open>Classes still needed\<close>

lemma cs101_scenario:
  "map_sum id ((\<lambda>r. (total_possible r, classes_needed r)) \<circ> fst)
     (get_attendance_stats cs101_tracker ''CS101'' 739586) = Inr (45, 4)"
proof -
  have facts: "minimum_attendance cs101_tracker = PyInt 75"
    "present_of cs101_tracker ''CS101'' = 30"
    "total_possible_of cs101_tracker ''CS101'' = 45"
    "yet_to_go (initial_get cs101_tracker ''CS101'') = 10"
    by (simp_all add: stats_eval)
  have rounding: "math_ceil (py_sub (PyFloat (truediv_value
       (py_mul (PyInt 75) (PyInt 45)) (PyInt 100))) (PyInt 30)) = 4"
    by code_simp
  show ?thesis
    unfolding get_attendance_stats_eq facts rounding remaining_cs101 by simp
qed

lemma needed_tracker_facts:
  "minimum_attendance needed_tracker = PyFloat (round_double (644 / 10))"
  "present_of needed_tracker ''CS101'' = 1"
  "total_possible_of needed_tracker ''CS101'' = 250"
  "yet_to_go (initial_get needed_tracker ''CS101'') = 248"
  "get_remaining_classes needed_tracker ''CS101'' 739586 = 1"
  by code_simp+

lemma needed_tracker_rounding:
  "math_ceil (py_sub (PyFloat (truediv_value
       (py_mul (PyFloat (round_double (644 / 10))) (PyInt 250)) (PyInt 100))) (PyInt 1)) = 161"
  by code_simp

lemma tiny_tracker_facts:
  "minimum_attendance tiny_tracker = PyFloat (round_double (8 / 10))"
  "present_of tiny_tracker ''CS101'' = 0"
  "total_possible_of tiny_tracker ''CS101'' = 125"
  "yet_to_go (initial_get tiny_tracker ''CS101'') = 124"
  "get_remaining_classes tiny_tracker ''CS101'' 739586 = 1"
  by code_simp+

lemma tiny_tracker_rounding:
  "math_ceil (py_sub (PyFloat (truediv_value
       (py_mul (PyFloat (round_double (8 / 10))) (PyInt 125)) (PyInt 100))) (PyInt 0)) = 1"
  "\<lceil>num_value (PyFloat (round_double (8 / 10))) * of_int 125 / 100\<rceil> = (2::int)"
  by code_simp+

text \<open>
  Claim C1 says that \<open>classes_needed\<close> is the ceiling of \<open>minPct * totalPossible / 100\<close>
  minus present, clamped to the interval from 0 to yet-to-go plus the calendar forecast. The
  source computes the product, the quotient and the difference in doubles, and each of
  them is rounded. With the threshold 64.4 typed in, one class attended, one missed and 248
  yet to go, the total is 250 and the formula gives \<open>161 - 1 = 160\<close>; the source gets
  \<open>161.00000000000003\<close> for the quotient and returns 161. Read with the value of the stored
  double in place of the decimal, the formula fails as well: with 0.8 typed in and a total of
  125 it gives 2, and the source returns 1.
\<close>

theorem classes_needed_rounding_off_by_one:
  "minimum_attendance needed_tracker = PyFloat (round_double (644 / 10))
   \<and> present_of needed_tracker ''CS101'' = 1
   \<and> total_possible_of needed_tracker ''CS101'' = 250
   \<and> yet_to_go (initial_get needed_tracker ''CS101'') = 248
   \<and> map_sum id (classes_needed \<circ> fst)
         (get_attendance_stats needed_tracker ''CS101'' 739586) = Inr 161
   \<and> clamp (\<lceil>(644 / 10 :: rat) * of_int (total_possible_of needed_tracker ''CS101'') / 100\<rceil>
              - present_of needed_tracker ''CS101'')
        0 (yet_to_go (initial_get needed_tracker ''CS101'')
             + get_remaining_classes needed_tracker ''CS101'' 739586) = 160
   \<and> present_of tiny_tracker ''CS101'' = 0
   \<and> total_possible_of tiny_tracker ''CS101'' = 125
   \<and> map_sum id (classes_needed \<circ> fst)
         (get_attendance_stats tiny_tracker ''CS101'' 739586) = Inr 1
   \<and> clamp (\<lceil>num_value (minimum_attendance tiny_tracker)
                * of_int (total_possible_of tiny_tracker ''CS101'') / 100\<rceil>
              - present_of tiny_tracker ''CS101'')
        0 (yet_to_go (initial_get tiny_tracker ''CS101'')
             + get_remaining_classes tiny_tracker ''CS101'' 739586) = 2"
proof -
  have code: "map_sum id (classes_needed \<circ> fst)
         (get_attendance_stats needed_tracker ''CS101'' 739586) = Inr 161"
    unfolding get_attendance_stats_eq needed_tracker_facts needed_tracker_rounding
    by simp
  have formula: "clamp (\<lceil>(644 / 10 :: rat) * of_int (total_possible_of needed_tracker ''CS101'') / 100\<rceil>
              - present_of needed_tracker ''CS101'')
        0 (yet_to_go (initial_get needed_tracker ''CS101'')
             + get_remaining_classes needed_tracker ''CS101'' 739586) = 160"
    unfolding needed_tracker_facts by (simp add: clamp_def)
  have code': "map_sum id (classes_needed \<circ> fst)
         (get_attendance_stats tiny_tracker ''CS101'' 739586) = Inr 1"
    unfolding get_attendance_stats_eq tiny_tracker_facts tiny_tracker_rounding
    by simp
  have formula': "clamp (\<lceil>num_value (minimum_attendance tiny_tracker)
                * of_int (total_possible_of tiny_tracker ''CS101'') / 100\<rceil>
              - present_of tiny_tracker ''CS101'')
        0 (yet_to_go (initial_get tiny_tracker ''CS101'')
             + get_remaining_classes tiny_tracker ''CS101'' 739586) = 2"
    unfolding tiny_tracker_facts tiny_tracker_rounding by (simp add: clamp_def)
  from needed_tracker_facts(1-4) tiny_tracker_facts(2,3) code formula code' formula'
  show ?thesis by (intro conjI)
qed



subsection \<open>Bunkable classes and the zero denominator\<close>

lemma bunk_tracker_facts:
  "minimum_attendance bunk_tracker = PyFloat 55"
  "held_of bunk_tracker ''CS101'' = 100"
  "absent_of bunk_tracker ''CS101'' = 10"
  "total_possible_of bunk_tracker ''CS101'' = 100"
  by code_simp+

lemma bunk_tracker_rounding:
  "py_trunc (py_sub
      (py_sub (PyInt 100)
         (py_mul (PyFloat (truediv_value (PyFloat 55) (PyInt 100))) (PyInt 100)))
      (PyInt 10)) = 34"
  by code_simp

text \<open>
  Claim C3 says that, when classes were held, \<open>calculate_bunkable_classes\<close> returns
  \<open>max 0 (floor (maxBunkable - absent))\<close> with
  \<open>maxBunkable = totalPossible - (minPct / 100) * totalPossible\<close>. The source computes the
  quotient, the product and the two differences in doubles and truncates the rounded
  result. With the threshold 55, 90 classes attended and 10 missed, the total is 100 and the
  formula gives \<open>45 - 10 = 35\<close>; the source gets \<open>34.99999999999999\<close> and returns 34.
\<close>

theorem bunkable_rounding_off_by_one:
  "minimum_attendance bunk_tracker = PyFloat 55
   \<and> held_of bunk_tracker ''CS101'' = 100
   \<and> absent_of bunk_tracker ''CS101'' = 10
   \<and> total_possible_of bunk_tracker ''CS101'' = 100
   \<and> map_sum id fst (calculate_bunkable_classes bunk_tracker ''CS101'' 739586) = Inr 34
   \<and> max 0 \<lfloor>(of_int (total_possible_of bunk_tracker ''CS101'')
                 - num_value (minimum_attendance bunk_tracker) / 100
                     * of_int (total_possible_of bunk_tracker ''CS101''))
              - of_int (absent_of bunk_tracker ''CS101'')\<rfloor> = 35"
proof -
  have code: "map_sum id fst (calculate_bunkable_classes bunk_tracker ''CS101'' 739586) = Inr 34"
    unfolding calculate_bunkable_classes_eq bunk_tracker_facts bunk_tracker_rounding
    by simp
  have formula: "max 0 \<lfloor>(of_int (total_possible_of bunk_tracker ''CS101'')
                 - num_value (minimum_attendance bunk_tracker) / 100
                     * of_int (total_possible_of bunk_tracker ''CS101''))
              - of_int (absent_of bunk_tracker ''CS101'')\<rfloor> = (35::int)"
    unfolding bunk_tracker_facts by (simp add: num_value_def)
  from bunk_tracker_facts code formula show ?thesis by (intro conjI)
qed



section \<open>Attendance ledger\<close>

lemma att_record_upd: "date r = D \<Longrightarrow> r\<lparr>status := x\<rparr> = \<lparr>date = D, status = x\<rparr>"
  by (cases r) simp

lemma mark_attendance_eq:
  "mark_attendance st S D x =
     st\<lparr>attendance_records := (attendance_records st)
          (S \<mapsto> (if D \<in> date ` set (ledger st S)
                  then map (\<lambda>r. if date r = D then r\<lparr>status := x\<rparr> else r) (ledger st S)
                  else ledger st S @ [\<lparr>date = D, status = x\<rparr>]))\<rparr>"
proof -
  have f: "filter (\<lambda>r. date r = D) rs \<noteq> [] \<longleftrightarrow> D \<in> date ` set rs" for rs :: "att_record list"
    by (auto simp: filter_empty_conv)
  show ?thesis
    by (cases "attendance_records st S")
       (simp_all add: mark_attendance_def records_getitem_def ledger_def f Let_def)
qed

lemma ledger_mark_attendance:
  "ledger (mark_attendance st S D x) S' =
     (if S' = S
      then (if D \<in> date ` set (ledger st S)
            then map (\<lambda>r. if date r = D then r\<lparr>status := x\<rparr> else r) (ledger st S)
            else ledger st S @ [\<lparr>date = D, status = x\<rparr>])
      else ledger st S')"
  by (simp add: mark_attendance_eq) (simp add: ledger_def)

lemma ledger_mark_same:
  "ledger (mark_attendance st S D x) S =
     (if D \<in> date ` set (ledger st S)
      then map (\<lambda>r. if date r = D then r\<lparr>status := x\<rparr> else r) (ledger st S)
      else ledger st S @ [\<lparr>date = D, status = x\<rparr>])"
  by (simp add: ledger_mark_attendance)

lemma date_map_upd:
  "map date (map (\<lambda>r. if date r = D then r\<lparr>status := x\<rparr> else r) rs) = map date rs"
  by (induction rs) auto

lemma map_upd_absent:
  "D \<notin> date ` set rs \<Longrightarrow> map (\<lambda>r. if date r = D then r\<lparr>status := x\<rparr> else r) rs = rs"
  by (induction rs) auto

lemma map_upd_twice:
  "map (\<lambda>r. if date r = D then r\<lparr>status := y\<rparr> else r)
     (map (\<lambda>r. if date r = D then r\<lparr>status := x\<rparr> else r) rs)
   = map (\<lambda>r. if date r = D then r\<lparr>status := y\<rparr> else r) rs"
  by (induction rs) auto

lemma filter_absent: "D \<notin> date ` set rs \<Longrightarrow> filter (\<lambda>r. date r = D) rs = []"
  by (induction rs) auto

lemma filter_map_upd:
  "distinct (map date rs) \<Longrightarrow> D \<in> date ` set rs \<Longrightarrow>
   filter (\<lambda>r. date r = D) (map (\<lambda>r. if date r = D then r\<lparr>status := x\<rparr> else r) rs)
     = [\<lparr>date = D, status = x\<rparr>]"
proof (induction rs)
  case Nil
  then show ?case by simp
next
  case (Cons r rs)
  show ?case
  proof (cases "date r = D")
    case True
    with Cons.prems have "D \<notin> date ` set rs" by auto
    then show ?thesis using True
      by (simp add: map_upd_absent filter_absent att_record_upd)
  next
    case False
    with Cons show ?thesis by auto
  qed
qed

lemma date_in_marked: "D \<in> set (map date (ledger (mark_attendance st S D x) S))"
proof (cases "D \<in> date ` set (ledger st S)")
  case True
  then have "map date (ledger (mark_attendance st S D x) S) = map date (ledger st S)"
    by (simp only: ledger_mark_same if_True date_map_upd)
  with True show ?thesis by simp
next
  case False
  then have "ledger (mark_attendance st S D x) S = ledger st S @ [\<lparr>date = D, status = x\<rparr>]"
    by (simp only: ledger_mark_same if_True if_False)
  then show ?thesis by simp
qed

lemma ledger_twice:
  "ledger (mark_attendance (mark_attendance st S D x) S D y) S =
     (if D \<in> date ` set (ledger st S)
      then map (\<lambda>r. if date r = D then r\<lparr>status := y\<rparr> else r) (ledger st S)
      else ledger st S @ [\<lparr>date = D, status = y\<rparr>])"
proof -
  let ?st1 = "mark_attendance st S D x"
  have in1: "D \<in> date ` set (ledger ?st1 S)" using date_in_marked[of D st S x] by simp
  have a: "ledger (mark_attendance ?st1 S D y) S
        = map (\<lambda>r. if date r = D then r\<lparr>status := y\<rparr> else r) (ledger ?st1 S)"
    using in1 by (simp only: ledger_mark_same[of ?st1] if_True)
  show ?thesis
  proof (cases "D \<in> date ` set (ledger st S)")
    case True
    then have "ledger ?st1 S = map (\<lambda>r. if date r = D then r\<lparr>status := x\<rparr> else r) (ledger st S)"
      by (simp only: ledger_mark_same if_True)
    with a True show ?thesis by (simp only: map_upd_twice if_True)
  next
    case False
    then have "ledger ?st1 S = ledger st S @ [\<lparr>date = D, status = x\<rparr>]"
      by (simp only: ledger_mark_same if_True if_False)
    with a False show ?thesis by (simp add: map_upd_absent)
  qed
qed


text \<open>
  Claim C5. Marking attendance is an upsert on the subject's ledger. Where no two records
  of the subject share a date: if a record for the date exists, the ledger keeps its length
  and order and that record gets the new status; otherwise one record is appended. The
  records of the ledger still have distinct dates afterwards. Marking twice with the same
  arguments gives the same state as marking once, and marking \<^verbatim>\<open>present\<close> and then
  \<^verbatim>\<open>absent\<close> leaves exactly one record for the date, with status \<^verbatim>\<open>absent\<close>.
\<close>

theorem mark_attendance_upsert:
  assumes "distinct (map date (ledger st S))"
  shows "(D \<in> date ` set (ledger st S) \<longrightarrow>
            ledger (mark_attendance st S D x) S
              = map (\<lambda>r. if date r = D then r\<lparr>status := x\<rparr> else r) (ledger st S))
     \<and> (D \<notin> date ` set (ledger st S) \<longrightarrow>
            ledger (mark_attendance st S D x) S = ledger st S @ [\<lparr>date = D, status = x\<rparr>])
     \<and> distinct (map date (ledger (mark_attendance st S D x) S))
     \<and> mark_attendance (mark_attendance st S D x) S D x = mark_attendance st S D x
     \<and> filter (\<lambda>r. date r = D)
           (ledger (mark_attendance (mark_attendance st S D ''present'') S D ''absent'') S)
         = [\<lparr>date = D, status = ''absent''\<rparr>]"
proof -
  let ?rs = "ledger st S"
  let ?U = "\<lambda>x. if D \<in> date ` set ?rs
            then map (\<lambda>r. if date r = D then r\<lparr>status := x\<rparr> else r) ?rs
            else ?rs @ [\<lparr>date = D, status = x\<rparr>]"
  have dist: "distinct (map date (?U x))"
  proof (cases "D \<in> date ` set ?rs")
    case True
    then have "map date (?U x) = map date ?rs" by (simp only: if_True date_map_upd)
    with assms show ?thesis by simp
  next
    case False
    with assms show ?thesis by simp
  qed
  have idem: "mark_attendance (mark_attendance st S D x) S D x = mark_attendance st S D x"
  proof -
    have "mark_attendance (mark_attendance st S D x) S D x
        = (mark_attendance st S D x)\<lparr>attendance_records :=
             (attendance_records (mark_attendance st S D x))
               (S \<mapsto> ledger (mark_attendance (mark_attendance st S D x) S D x) S)\<rparr>"
      by (subst mark_attendance_eq) (simp add: ledger_mark_same)
    also have "\<dots> = (mark_attendance st S D x)\<lparr>attendance_records :=
             (attendance_records (mark_attendance st S D x)) (S \<mapsto> ?U x)\<rparr>"
      by (simp only: ledger_twice)
    also have "\<dots> = mark_attendance st S D x"
      by (simp add: mark_attendance_eq)
    finally show ?thesis .
  qed
  have law: "filter (\<lambda>r. date r = D)
           (ledger (mark_attendance (mark_attendance st S D ''present'') S D ''absent'') S)
         = [\<lparr>date = D, status = ''absent''\<rparr>]"
  proof (cases "D \<in> date ` set ?rs")
    case True
    with assms show ?thesis by (simp only: ledger_twice if_True filter_map_upd)
  next
    case False
    then show ?thesis by (simp add: ledger_twice filter_absent)
  qed
  show ?thesis
    using dist idem law by (simp add: ledger_mark_same)
qed

theorem mark_attendance_upsert_witness:
  "distinct (map date (ledger marked_tracker ''CS101''))
   \<and> ''2025-12-01'' \<in> date ` set (ledger marked_tracker ''CS101'')
   \<and> ''2025-12-02'' \<notin> date ` set (ledger marked_tracker ''CS101'')
   \<and> ledger (mark_attendance marked_tracker ''CS101'' ''2025-12-01'' ''absent'') ''CS101''
       = [\<lparr>date = ''2025-12-01'', status = ''absent''\<rparr>]
   \<and> ledger (mark_attendance marked_tracker ''CS101'' ''2025-12-02'' ''absent'') ''CS101''
       = [\<lparr>date = ''2025-12-01'', status = ''present''\<rparr>,
          \<lparr>date = ''2025-12-02'', status = ''absent''\<rparr>]"
proof -
  have l: "ledger marked_tracker ''CS101'' = [\<lparr>date = ''2025-12-01'', status = ''present''\<rparr>]"
    by (simp add: marked_tracker_def mark_attendance_eq ledger_def cs101_tracker_def)
  have d: "distinct (map date (ledger marked_tracker ''CS101''))"
    by (simp add: l)
  show ?thesis
    using mark_attendance_upsert [OF d, of "''2025-12-01''" "''absent''"]
      mark_attendance_upsert [OF d, of "''2025-12-02''" "''absent''"]
    by (simp add: l)
qed

text \<open>
  Claim C10. For every subject code, also one that the subjects map does not know,
  \<open>mark_attendance\<close> leaves a ledger list for the code that holds the record for the date
  with the given status; when the code had no ledger list, the list is created and holds
  just that record. The subjects map is not changed, so an unknown code stays unknown. The
  method has no path that raises: the model is a total function on states.
\<close>

theorem mark_attendance_any_subject:
  "\<exists>rs. attendance_records (mark_attendance st S D x) S = Some rs
     \<and> \<lparr>date = D, status = x\<rparr> \<in> set rs
     \<and> (attendance_records st S = None \<longrightarrow> rs = [\<lparr>date = D, status = x\<rparr>])
     \<and> subjects (mark_attendance st S D x) = subjects st"
proof -
  let ?rs = "ledger (mark_attendance st S D x) S"
  have some: "attendance_records (mark_attendance st S D x) S = Some ?rs"
    by (simp add: mark_attendance_eq) (simp add: ledger_def)
  have upd: "\<lparr>date = D, status = x\<rparr>
      \<in> set (map (\<lambda>r. if date r = D then r\<lparr>status := x\<rparr> else r) rs)"
    if "D \<in> date ` set rs" for rs
    using that by (induction rs) (auto simp: att_record_upd)
  have mem: "\<lparr>date = D, status = x\<rparr> \<in> set ?rs"
  proof (cases "D \<in> date ` set (ledger st S)")
    case True
    then have "?rs = map (\<lambda>r. if date r = D then r\<lparr>status := x\<rparr> else r) (ledger st S)"
      by (simp only: ledger_mark_same if_True)
    with upd[OF True] show ?thesis by (simp only:)
  next
    case False
    then show ?thesis by (simp add: ledger_mark_same)
  qed
  have fresh: "?rs = [\<lparr>date = D, status = x\<rparr>]" if "attendance_records st S = None"
  proof -
    from that have "ledger st S = []" by (simp add: ledger_def)
    then show ?thesis by (simp add: ledger_mark_same)
  qed
  have subj: "subjects (mark_attendance st S D x) = subjects st"
    by (simp add: mark_attendance_eq)
  show ?thesis
  proof (intro exI conjI impI)
    show "attendance_records (mark_attendance st S D x) S = Some ?rs" by (rule some)
    show "\<lparr>date = D, status = x\<rparr> \<in> set ?rs" by (rule mem)
    show "?rs = [\<lparr>date = D, status = x\<rparr>]" if "attendance_records st S = None"
      using that by (rule fresh)
    show "subjects (mark_attendance st S D x) = subjects st" by (rule subj)
  qed
qed

theorem mark_attendance_any_subject_witness:
  "subjects blank_tracker ''GHOST'' = None \<and> attendance_records blank_tracker ''GHOST'' = None
   \<and> attendance_records (mark_attendance blank_tracker ''GHOST'' ''2025-12-01'' ''present'') ''GHOST''
       = Some [\<lparr>date = ''2025-12-01'', status = ''present''\<rparr>]
   \<and> subjects (mark_attendance blank_tracker ''GHOST'' ''2025-12-01'' ''present'') ''GHOST'' = None"
proof -
  have a: "attendance_records blank_tracker ''GHOST'' = None" "subjects blank_tracker ''GHOST'' = None"
    by (simp_all add: blank_tracker_def)
  show ?thesis
    using mark_attendance_any_subject [of blank_tracker "''GHOST''" "''2025-12-01''" "''present''"] a
    by auto
qed

section \<open>Subjects\<close>

lemma remaining_loop_no_occurrence:
  "\<forall>day entries. tt day = Some entries \<longrightarrow> s \<notin> snd ` set entries \<Longrightarrow>
   remaining_loop tt hol s e c acc = acc"
proof (induction tt hol s e c acc rule: remaining_loop.induct)
  case (1 tt hol s e c acc)
  have none: "filter (\<lambda>(_, subj). subj = s) entries = []" if "tt (day_name c) = Some entries" for entries
  proof -
    have "s \<notin> snd ` set entries" using "1.prems" that by blast
    then show ?thesis by (force simp: filter_empty_conv)
  qed
  show ?case
  proof (cases "c \<le> e")
    case True
    have step: "(case tt (day_name c) of None \<Rightarrow> acc
           | Some classes \<Rightarrow> if c \<notin> hol
               then acc + int (length (filter (\<lambda>(_, subj). subj = s) classes))
               else acc) = acc"
      by (cases "tt (day_name c)") (simp_all add: none)
    have "remaining_loop tt hol s e c acc = remaining_loop tt hol s e (c + 1) acc"
      using True by (subst remaining_loop.simps) (simp only: step if_True)
    also have "\<dots> = acc"
      using "1.IH"[OF True] "1.prems" by (simp only: step)
    finally show ?thesis .
  next
    case False
    then show ?thesis by (subst remaining_loop.simps) simp
  qed
qed

lemma delete_subject_timetable:
  "S \<in> dom (subjects st) \<Longrightarrow> timetable (delete_subject st S) day = Some entries \<Longrightarrow>
   S \<notin> snd ` set entries"
  by (auto simp: delete_subject_def)

text \<open>
  Claim C9. Deleting a subject that the subjects map knows removes its entry from the
  subjects map, its ledger list and its initial-attendance seed, and on every day of the
  timetable no entry with the subject's code is left; the days themselves stay registered.
  The calendar forecast for the code is then 0. The other components of the state
  (holidays, threshold, absence reasons, semester end) hold no subject codes.
\<close>

theorem delete_subject_cascade:
  assumes "S \<in> dom (subjects st)"
  shows "subjects (delete_subject st S) S = None
     \<and> attendance_records (delete_subject st S) S = None
     \<and> initial_attendance (delete_subject st S) S = None
     \<and> (\<forall>day entries. timetable (delete_subject st S) day = Some entries
            \<longrightarrow> S \<notin> snd ` set entries)
     \<and> dom (timetable (delete_subject st S)) = dom (timetable st)
     \<and> get_remaining_classes (delete_subject st S) S today = 0"
proof -
  have a: "subjects (delete_subject st S) S = None"
    and b: "attendance_records (delete_subject st S) S = None"
    and c: "initial_attendance (delete_subject st S) S = None"
    using assms by (auto simp: delete_subject_def)
  have d: "dom (timetable (delete_subject st S)) = dom (timetable st)"
    using assms by (auto simp: delete_subject_def dom_def)
  have e: "get_remaining_classes (delete_subject st S) S today = 0"
    unfolding get_remaining_classes_def
    by (rule remaining_loop_no_occurrence) (use delete_subject_timetable[OF assms] in blast)
  from a b c d e delete_subject_timetable[OF assms] show ?thesis by blast
qed

theorem delete_subject_cascade_witness:
  "''CS101'' \<in> dom (subjects cs101_tracker)
   \<and> timetable cs101_tracker ''Monday'' = Some [(''Period 1 (8:30-9:25)'', ''CS101'')]
   \<and> timetable (delete_subject cs101_tracker ''CS101'') ''Monday'' = Some []
   \<and> subjects (delete_subject cs101_tracker ''CS101'') ''CS101'' = None
   \<and> initial_attendance (delete_subject cs101_tracker ''CS101'') ''CS101'' = None
   \<and> get_remaining_classes (delete_subject cs101_tracker ''CS101'') ''CS101'' 739586 = 0"
proof -
  have a: "''CS101'' \<in> dom (subjects cs101_tracker)"
    by (simp add: cs101_tracker_def)
  have t: "timetable (delete_subject cs101_tracker ''CS101'') ''Monday'' = Some []"
    "timetable cs101_tracker ''Monday'' = Some [(''Period 1 (8:30-9:25)'', ''CS101'')]"
    by (simp_all add: delete_subject_def cs101_tracker_def)
  show ?thesis
    using delete_subject_cascade [OF a, of 739586] a t by simp
qed

section \<open>Timetable\<close>

lemmas timetable_eval =
  add_timetable_entry_def delete_timetable_entry_def period_number_def py_split_def py_int_def
  py_strip_def py_isspace_def is_digit_def digit_val_def starts_with_period_def py_str_def
  str_nat.simps subject_is_lab_def day_entries_def get_period_time_def time_map_def
  lab_tracker_def blank_tracker_def add_subject_def phy_tracker_def mat_tracker_def Let_def

subsection \<open>Adding an entry\<close>

lemma add_timetable_entry_raises_iff:
  assumes "period_number slot = Inr n"
  shows "fst (add_timetable_entry st day slot S) =
           (if subject_is_lab st S
               \<and> (7 \<le> n \<or> list_ex (\<lambda>(time, _). starts_with_period (n + 1) time)
                             (day_entries st day))
            then Some lab_conflict else None)"
  using assms
  by (auto simp: add_timetable_entry_def Let_def subject_is_lab_def day_entries_def
      split: option.splits)

lemma add_timetable_entry_failure_keeps_entries:
  assumes "fst (add_timetable_entry st day slot S) \<noteq> None"
  shows "snd (add_timetable_entry st day slot S) =
           (if day \<in> dom (timetable st) then st
            else st\<lparr>timetable := (timetable st)(day \<mapsto> [])\<rparr>)"
  using assms
  by (auto simp: add_timetable_entry_def Let_def split: sum.splits if_splits)

lemma filter_free_slot:
  "\<not> list_ex (\<lambda>(time, _). P time) es \<Longrightarrow>
   filter (\<lambda>(t, s). \<not> P t) (filter Q es) = filter Q es"
  by (induction es) auto

lemma add_timetable_entry_success:
  assumes "period_number slot = Inr n"
    and "fst (add_timetable_entry st day slot S) = None"
  shows "timetable (snd (add_timetable_entry st day slot S)) =
           (timetable st)(day \<mapsto>
              sort (filter (\<lambda>(t, s). \<not> starts_with_period n t) (day_entries st day)
                    @ [(slot, S)]
                    @ (if subject_is_lab st S
                       then [(''Period '' @ py_str (n + 1) @ '' (''
                                @ get_period_time (n + 1) @ '')'', S)]
                       else [])))"
proof -
  let ?es = "day_entries st day"
  have keep: "filter (\<lambda>(t, s). \<not> starts_with_period (n + 1) t)
                (filter (\<lambda>(t, s). \<not> starts_with_period n t) ?es)
              = filter (\<lambda>(t, s). \<not> starts_with_period n t) ?es"
    if "\<not> list_ex (\<lambda>(time, _). starts_with_period (n + 1) time) ?es"
    using that by (rule filter_free_slot)
  show ?thesis
    using assms keep
    by (auto simp: add_timetable_entry_def Let_def subject_is_lab_def day_entries_def
        split: option.splits if_splits)
qed


lemma add_timetable_entry_sorted:
  assumes "period_number slot = Inr n"
    and "fst (add_timetable_entry st day slot S) = None"
  shows "sorted (day_entries (snd (add_timetable_entry st day slot S)) day)"
  by (simp add: add_timetable_entry_success[OF assms] day_entries_def)

text \<open>
  Claim C6 says that a call of \<open>add_timetable_entry\<close> that fails with the lab conflict
  leaves the timetable unchanged. The lemmas above show when the call fails and what a
  successful call stores; the failing call, however, has already registered the day. Here
  the lab is added at the last period of a Monday that the timetable does not hold: the
  conflict is raised, and Monday is a key of the timetable afterwards, with an empty list.
\<close>

theorem add_timetable_entry_failure_registers_day:
  "timetable lab_tracker ''Monday'' = None
   \<and> subject_is_lab lab_tracker ''PHY''
   \<and> period_number ''Period 7 (3:15-4:10)'' = Inr 7
   \<and> add_timetable_entry lab_tracker ''Monday'' ''Period 7 (3:15-4:10)'' ''PHY''
       = (Some lab_conflict, lab_tracker\<lparr>timetable := [''Monday'' \<mapsto> []]\<rparr>)
   \<and> timetable (snd (add_timetable_entry lab_tracker ''Monday'' ''Period 7 (3:15-4:10)'' ''PHY''))
         ''Monday'' = Some []
   \<and> timetable (snd (add_timetable_entry lab_tracker ''Monday'' ''Period 7 (3:15-4:10)'' ''PHY''))
       \<noteq> timetable lab_tracker"
proof -
  have t: "timetable lab_tracker ''Monday'' = None"
    and l: "subject_is_lab lab_tracker ''PHY''"
    and n: "period_number ''Period 7 (3:15-4:10)'' = Inr 7"
    and a: "add_timetable_entry lab_tracker ''Monday'' ''Period 7 (3:15-4:10)'' ''PHY''
       = (Some lab_conflict, lab_tracker\<lparr>timetable := [''Monday'' \<mapsto> []]\<rparr>)"
    by (simp_all add: timetable_eval)
  have m: "timetable (snd (add_timetable_entry lab_tracker ''Monday'' ''Period 7 (3:15-4:10)'' ''PHY''))
         ''Monday'' = Some []"
    by (simp add: a)
  from t m have "timetable (snd (add_timetable_entry lab_tracker ''Monday'' ''Period 7 (3:15-4:10)'' ''PHY''))
       \<noteq> timetable lab_tracker"
    by (metis option.distinct(1))
  with t l n a m show ?thesis by blast
qed

subsection \<open>Deleting an entry\<close>

lemma delete_loop_subseq: "subseq (delete_loop ttf slot S es skip) es"
proof (induction es arbitrary: skip)
  case Nil
  then show ?case by simp
next
  case (Cons e es)
  obtain t s where e: "e = (t, s)" by (cases e)
  show ?case
  proof (cases skip)
    case True
    then have "delete_loop ttf slot S (e # es) skip = delete_loop ttf slot S es False"
      by (simp add: e)
    with Cons.IH[of False] show ?thesis by (simp only: list_emb_Cons)
  next
    case False
    show ?thesis
    proof (cases "(Some t = ttf \<or> t = slot) \<and> s = S")
      case True
      let ?b = "case es of [] \<Rightarrow> False | (_, subj') # _ \<Rightarrow> subj' = S"
      from True \<open>\<not> skip\<close>
      have "delete_loop ttf slot S (e # es) skip = delete_loop ttf slot S es ?b"
        by (simp add: e)
      with Cons.IH[of ?b] show ?thesis by (simp only: list_emb_Cons)
    next
      case no: False
      with \<open>\<not> skip\<close>
      have "delete_loop ttf slot S (e # es) skip = e # delete_loop ttf slot S es False"
        by (auto simp add: e)
      with Cons.IH[of False] show ?thesis by (simp only: subseq_Cons2)
    qed
  qed
qed

lemma delete_loop_other_subjects:
  "(skip \<longrightarrow> es \<noteq> [] \<and> snd (hd es) = S) \<Longrightarrow>
   filter (\<lambda>(t, s). s \<noteq> S) (delete_loop ttf slot S es skip)
     = filter (\<lambda>(t, s). s \<noteq> S) es"
proof (induction es arbitrary: skip)
  case Nil
  then show ?case by simp
next
  case (Cons e es)
  obtain t s where e: "e = (t, s)" by (cases e)
  show ?case
  proof (cases skip)
    case True
    with Cons.prems e have "s = S" by simp
    with True e Cons.IH[of False] show ?thesis by simp
  next
    case False
    show ?thesis
    proof (cases "(Some t = ttf \<or> t = slot) \<and> s = S")
      case True
      let ?flag = "case es of [] \<Rightarrow> False | (_, subj') # _ \<Rightarrow> subj' = S"
      have "?flag \<longrightarrow> es \<noteq> [] \<and> snd (hd es) = S"
        by (auto split: list.splits)
      from Cons.IH[OF this] True False e show ?thesis by simp
    next
      case no: False
      with False e Cons.IH[of False] show ?thesis by auto
    qed
  qed
qed

lemma delete_timetable_entry_other_days:
  "d \<noteq> day \<Longrightarrow> timetable (snd (delete_timetable_entry st day slot S)) d = timetable st d"
proof (cases "timetable st day")
  case None
  then show ?thesis by (simp add: delete_timetable_entry_def)
next
  case (Some entries)
  assume d: "d \<noteq> day"
  show ?thesis
  proof (cases "if py_contains '' ('' slot
                 then (case period_number slot of
                         Inl e \<Rightarrow> Inl e
                       | Inr period_num \<Rightarrow> Inr (time_map period_num))
                 else Inr (Some slot)")
    case (Inl e)
    with Some show ?thesis by (simp add: delete_timetable_entry_def)
  next
    case (Inr ttf)
    with Some d show ?thesis by (simp add: delete_timetable_entry_def Let_def)
  qed
qed

text \<open>
  Claim C8 says that deleting an entry of a subject that is not a lab removes exactly that
  entry. The loop never asks whether the subject is a lab: it also drops the next entry of
  the list when that entry has the same subject code. Here the lecture MAT is scheduled by
  two calls of \<open>add_timetable_entry\<close> on Monday, periods 1 and 2 (distinct slots); deleting
  the entry of period 1 removes both entries, and with them the day.
\<close>

theorem delete_timetable_entry_removes_second_lecture:
  "add_timetable_entry
       (snd (add_timetable_entry lab_tracker ''Monday'' ''Period 1 (8:30-9:25)'' ''MAT''))
       ''Monday'' ''Period 2 (9:25-10:20)'' ''MAT'' = (None, mat_tracker)
   \<and> \<not> subject_is_lab mat_tracker ''MAT''
   \<and> timetable mat_tracker ''Monday''
       = Some [(''Period 1 (8:30-9:25)'', ''MAT''), (''Period 2 (9:25-10:20)'', ''MAT'')]
   \<and> distinct (map fst (day_entries mat_tracker ''Monday''))
   \<and> delete_timetable_entry mat_tracker ''Monday'' ''Period 1 (8:30-9:25)'' ''MAT'' = (None, lab_tracker)
   \<and> timetable lab_tracker ''Monday'' = None"
  by (simp add: timetable_eval)


subsection \<open>The invariant\<close>

text \<open>
  Claim C7 says that every \<open>add_timetable_entry\<close> and \<open>delete_timetable_entry\<close> keeps the
  invariant: no slot of a day is occupied twice, and every lab subject of a day occupies
  exactly two adjacent slots. Scheduling the lab PHY on an empty Monday at period 1 gives a
  day that satisfies the invariant. Adding the lecture MAT at period 2 then overwrites the
  second half of the pair only, and deleting the entry of period 2 removes the second half
  only: after either call PHY occupies period 1 alone.
\<close>

theorem timetable_operations_break_lab_pair:
  "add_timetable_entry lab_tracker ''Monday'' ''Period 1 (8:30-9:25)'' ''PHY'' = (None, phy_tracker)
   \<and> day_invariant phy_tracker ''Monday''
   \<and> timetable (snd (add_timetable_entry phy_tracker ''Monday'' ''Period 2 (9:25-10:20)'' ''MAT'')) ''Monday''
       = Some [(''Period 1 (8:30-9:25)'', ''PHY''), (''Period 2 (9:25-10:20)'', ''MAT'')]
   \<and> \<not> day_invariant (snd (add_timetable_entry phy_tracker ''Monday'' ''Period 2 (9:25-10:20)'' ''MAT''))
           ''Monday''
   \<and> timetable (snd (delete_timetable_entry phy_tracker ''Monday'' ''Period 2 (9:25-10:20)'' ''PHY''))
         ''Monday''
       = Some [(''Period 1 (8:30-9:25)'', ''PHY'')]
   \<and> \<not> day_invariant (snd (delete_timetable_entry phy_tracker ''Monday'' ''Period 2 (9:25-10:20)'' ''PHY''))
           ''Monday''"
  by (simp add: day_invariant_def lab_pair_ok_def timetable_eval)

end
